theory Spec2Isabelle
  imports Complex_Main "HOL-Library.Sublist"
begin

section \<open>Python values and exceptions\<close>

text \<open>
  The script handles values whose type is only known at run time: the \<open>creation_date\<close>
  of a WHOIS entry (absent, a datetime, a string the library could not parse, or a list of
  those) and the decoded JSON body of the Wayback answer. Both are values of one type.

  A datetime is a count of microseconds on the proleptic calendar together with its UTC
  offset when it is timezone-aware. A dict is an association list read with \<open>map_of\<close>.
  Strings are byte lists; the only character the script inspects is the ASCII space.
\<close>

datatype datetime = Naive int | Aware int int

datatype pyval =
    PyNone
  | PyBool bool
  | PyInt int
  | PyFloat rat
  | PyStr string
  | PyList "pyval list"
  | PyDict "(string \<times> pyval) list"
  | PyDatetime datetime

text \<open>
  The exceptions are instances of \<open>Exception\<close>, the failures a call can raise:
  \<open>RequestException\<close> stands for any instance of that class of \<open>requests\<close> other than
  \<open>HTTPError\<close> (its subclass), and \<open>Exception\<close> for an instance of any other class.
  \<open>KeyboardInterrupt\<close> and \<open>SystemExit\<close>, which are not instances of \<open>Exception\<close>, are
  not failures of a call and have no value here; \<open>sys.exit(1)\<close> is the exit status 1.
\<close>

datatype exn =
    PywhoisError
  | HTTPError
  | RequestException
  | TypeError
  | KeyError
  | IndexError
  | Exception

fun isinstance_PywhoisError :: "exn \<Rightarrow> bool" where
  "isinstance_PywhoisError PywhoisError = True"
| "isinstance_PywhoisError _ = False"

fun isinstance_RequestException :: "exn \<Rightarrow> bool" where
  "isinstance_RequestException HTTPError = True"
| "isinstance_RequestException RequestException = True"
| "isinstance_RequestException _ = False"

fun isinstance_Exception :: "exn \<Rightarrow> bool" where
  "isinstance_Exception _ = True"

text \<open>\<open>bool(v)\<close>, as \<open>if v:\<close> and \<open>and\<close> evaluate it.\<close>

fun truthy :: "pyval \<Rightarrow> bool" where
  "truthy PyNone = False"
| "truthy (PyBool b) = b"
| "truthy (PyInt n) = (n \<noteq> 0)"
| "truthy (PyFloat r) = (r \<noteq> 0)"
| "truthy (PyStr s) = (s \<noteq> [])"
| "truthy (PyList xs) = (xs \<noteq> [])"
| "truthy (PyDict kvs) = (kvs \<noteq> [])"
| "truthy (PyDatetime t) = True"

text \<open>
  \<open>k in v\<close> for a string \<open>k\<close>: key membership in a dict, element membership in a list,
  substring test in a string, \<open>TypeError\<close> on anything else.
\<close>

fun py_contains :: "pyval \<Rightarrow> string \<Rightarrow> exn + bool" where
  "py_contains (PyDict kvs) k = Inr (map_of kvs k \<noteq> None)"
| "py_contains (PyList xs) k = Inr (PyStr k \<in> set xs)"
| "py_contains (PyStr s) k = Inr (sublist k s)"
| "py_contains _ k = Inl TypeError"

text \<open>
  \<open>v[k]\<close> for a string \<open>k\<close>: a dict gives the value or \<open>KeyError\<close>; a list or a string
  takes integer indices only, and nothing else can be subscripted.
\<close>

fun py_getitem :: "pyval \<Rightarrow> string \<Rightarrow> exn + pyval" where
  "py_getitem (PyDict kvs) k = (case map_of kvs k of None \<Rightarrow> Inl KeyError | Some v \<Rightarrow> Inr v)"
| "py_getitem _ k = Inl TypeError"

text \<open>\<open>v[0]\<close> on a list.\<close>

fun py_first :: "pyval list \<Rightarrow> exn + pyval" where
  "py_first [] = Inl IndexError"
| "py_first (x # xs) = Inr x"

text \<open>
  \<open>(datetime.now() - v).days\<close>, where \<open>datetime.now()\<close> is the naive datetime at
  microsecond \<open>now\<close>. Two naive datetimes subtract to a timedelta, whose \<open>days\<close> is the
  floor of its length in days; a naive and an aware one, or a datetime and anything that
  is not a datetime, raise \<open>TypeError\<close>.
\<close>

definition usec_per_day :: int where
  "usec_per_day = 86400 * 1000000"

fun days_since :: "int \<Rightarrow> pyval \<Rightarrow> exn + int" where
  "days_since now (PyDatetime (Naive t)) = Inr ((now - t) div usec_per_day)"
| "days_since now (PyDatetime (Aware t off)) = Inl TypeError"
| "days_since now _ = Inl TypeError"

section \<open>The environment\<close>

text \<open>
  The two collaborators and the clock are parameters: \<open>whois.whois\<close> returns an entry or
  raises, \<open>requests.get\<close> returns a response or raises, \<open>datetime.now()\<close> is frozen.
  An entry's \<open>creation_date\<close> attribute is \<open>None\<close> when the registry gave none. A
  response carries its status code and what \<open>response.json()\<close> returns or raises.
\<close>

record whois_entry =
  creation_date :: pyval

record response =
  status_code :: int
  json :: "exn + pyval"

record env =
  whois_whois :: "string \<Rightarrow> exn + whois_entry"
  requests_get :: "string \<Rightarrow> exn + response"
  datetime_now :: int

text \<open>
  What a run does to the outside: the queries sent, in order, and the lines printed. A
  printed line is the f-string of its \<open>print\<close>: literal text and formatted values.
\<close>

datatype call = WhoisQuery string | HttpGet string

datatype frag = Lit string | Fmt pyval

record world =
  calls :: "call list"
  stdout :: "frag list list"

definition world0 :: world where
  "world0 = \<lparr>calls = [], stdout = []\<rparr>"

definition send :: "call \<Rightarrow> world \<Rightarrow> world" where
  "send c w = w\<lparr>calls := calls w @ [c]\<rparr>"

definition print :: "frag list \<Rightarrow> world \<Rightarrow> world" where
  "print l w = w\<lparr>stdout := stdout w @ [l]\<rparr>"

text \<open>\<open>response.raise_for_status()\<close>: \<open>HTTPError\<close> on a 4xx or 5xx status.\<close>

definition raise_for_status :: "response \<Rightarrow> exn + unit" where
  "raise_for_status r =
     (if 400 \<le> status_code r \<and> status_code r < 600 then Inl HTTPError else Inr ())"

section \<open>The script\<close>

subsection \<open>get_domain_age\<close>

text \<open>The body of the \<open>try\<close>, after the lookup has returned.\<close>

definition get_domain_age_body :: "int \<Rightarrow> whois_entry \<Rightarrow> exn + pyval" where
  "get_domain_age_body now domain_info =
     (if truthy (creation_date domain_info) then
        (case (case creation_date domain_info of
                 PyList xs \<Rightarrow> py_first xs
               | v \<Rightarrow> Inr v) of
           Inl e \<Rightarrow> Inl e
         | Inr cd \<Rightarrow>
             if truthy cd then
               (case days_since now cd of
                  Inl e \<Rightarrow> Inl e
                | Inr domain_age \<Rightarrow> Inr (PyInt domain_age))
             else Inr PyNone)
      else Inr PyNone)"

text \<open>
  The two \<open>except\<close> clauses, in the source's order; an exception that neither matches
  propagates.
\<close>

definition get_domain_age_except :: "exn \<Rightarrow> exn + pyval" where
  "get_domain_age_except e =
     (if isinstance_PywhoisError e then Inr PyNone
      else if isinstance_Exception e then Inr PyNone
      else Inl e)"

definition get_domain_age :: "env \<Rightarrow> string \<Rightarrow> world \<Rightarrow> (exn + pyval) \<times> world" where
  "get_domain_age ev d w =
     (let w1 = send (WhoisQuery d) w;
          r = (case whois_whois ev d of
                 Inl e \<Rightarrow> Inl e
               | Inr domain_info \<Rightarrow> get_domain_age_body (datetime_now ev) domain_info)
      in (case r of Inl e \<Rightarrow> get_domain_age_except e | Inr v \<Rightarrow> Inr v, w1))"

subsection \<open>check_wayback_machine\<close>

definition wayback_url :: "string \<Rightarrow> string" where
  "wayback_url d = ''http://archive.org/wayback/available?url='' @ d"

text \<open>
  The condition \<open>data and 'archived_snapshots' in data and data['archived_snapshots']\<close>,
  evaluated left to right and stopping at the first falsy operand.
\<close>

definition has_snapshots :: "pyval \<Rightarrow> exn + bool" where
  "has_snapshots data =
     (if \<not> truthy data then Inr False
      else (case py_contains data ''archived_snapshots'' of
              Inl e \<Rightarrow> Inl e
            | Inr b \<Rightarrow>
                if \<not> b then Inr False
                else (case py_getitem data ''archived_snapshots'' of
                        Inl e \<Rightarrow> Inl e
                      | Inr snaps \<Rightarrow> Inr (truthy snaps))))"

text \<open>\<open>data['archived_snapshots']['closest']['url']\<close>.\<close>

definition closest_url :: "pyval \<Rightarrow> exn + pyval" where
  "closest_url data =
     (case py_getitem data ''archived_snapshots'' of
        Inl e \<Rightarrow> Inl e
      | Inr snaps \<Rightarrow>
          (case py_getitem snaps ''closest'' of
             Inl e \<Rightarrow> Inl e
           | Inr c \<Rightarrow> py_getitem c ''url''))"

text \<open>The part of the \<open>try\<close> that inspects the decoded body.\<close>

definition check_wayback_data :: "pyval \<Rightarrow> exn + pyval" where
  "check_wayback_data data =
     (case has_snapshots data of
        Inl e \<Rightarrow> Inl e
      | Inr True \<Rightarrow>
          (case py_getitem data ''archived_snapshots'' of
             Inl e \<Rightarrow> Inl e
           | Inr snaps \<Rightarrow>
               (case py_contains snaps ''closest'' of
                  Inl e \<Rightarrow> Inl e
                | Inr True \<Rightarrow> closest_url data
                | Inr False \<Rightarrow> Inr PyNone))
      | Inr False \<Rightarrow> Inr PyNone)"

definition check_wayback_body :: "response \<Rightarrow> exn + pyval" where
  "check_wayback_body r =
     (case raise_for_status r of
        Inl e \<Rightarrow> Inl e
      | Inr _ \<Rightarrow>
          (case json r of
             Inl e \<Rightarrow> Inl e
           | Inr data \<Rightarrow> check_wayback_data data))"

definition check_wayback_except :: "exn \<Rightarrow> exn + pyval" where
  "check_wayback_except e =
     (if isinstance_RequestException e then Inr PyNone
      else if isinstance_Exception e then Inr PyNone
      else Inl e)"

definition check_wayback_machine :: "env \<Rightarrow> string \<Rightarrow> world \<Rightarrow> (exn + pyval) \<times> world" where
  "check_wayback_machine ev d w =
     (let url = wayback_url d;
          w1 = send (HttpGet url) w;
          r = (case requests_get ev url of
                 Inl e \<Rightarrow> Inl e
               | Inr resp \<Rightarrow> check_wayback_body resp)
      in (case r of Inl e \<Rightarrow> check_wayback_except e | Inr v \<Rightarrow> Inr v, w1))"

subsection \<open>is_valid_domain\<close>

fun is_valid_domain :: "pyval \<Rightarrow> bool" where
  "is_valid_domain (PyStr s) =
     (if s = [] then False
      else if CHR '' '' \<in> set s then False
      else True)"
| "is_valid_domain _ = False"

subsection \<open>main\<close>

text \<open>
  \<open>main\<close> starts after \<open>parse_args\<close>, which gives \<open>args.domain\<close> as a string. The result
  is the exit status of the process: 1 from \<open>sys.exit(1)\<close>, 1 when an exception leaves
  \<open>main\<close>, 0 when \<open>main\<close> returns. The \<open>verbose\<close> flag only sets the log level; the log
  stream is not part of the model.
\<close>

record args =
  domain :: string
  verbose :: bool

definition age_line :: "string \<Rightarrow> pyval \<Rightarrow> frag list" where
  "age_line d domain_age =
     (if domain_age \<noteq> PyNone
      then [Lit ''Domain '', Fmt (PyStr d), Lit '' is '', Fmt domain_age, Lit '' days old.'']
      else [Lit ''Could not determine the age of domain '', Fmt (PyStr d), Lit ''.''])"

definition wayback_line :: "string \<Rightarrow> pyval \<Rightarrow> frag list" where
  "wayback_line d oldest_wayback_url =
     (if truthy oldest_wayback_url
      then [Lit ''Oldest Wayback Machine URL for '', Fmt (PyStr d), Lit '': '',
            Fmt oldest_wayback_url]
      else [Lit ''Domain '', Fmt (PyStr d), Lit '' not found in the Wayback Machine.''])"

definition main :: "env \<Rightarrow> args \<Rightarrow> world \<Rightarrow> int \<times> world" where
  "main ev a w =
     (let d = domain a in
      if \<not> is_valid_domain (PyStr d) then (1, w)
      else (case get_domain_age ev d w of
              (Inl e, w1) \<Rightarrow> (1, w1)
            | (Inr domain_age, w1) \<Rightarrow>
                (let w2 = print (age_line d domain_age) w1 in
                 (case check_wayback_machine ev d w2 of
                    (Inl e, w3) \<Rightarrow> (1, w3)
                  | (Inr oldest_wayback_url, w3) \<Rightarrow>
                      (0, print (wayback_line d oldest_wayback_url) w3)))))"

section \<open>Example inputs\<close>

text \<open>
  A mocked environment: the lookup and the HTTP request give the same outcome for every
  argument, and the clock stands at \<open>now\<close>. \<open>day n\<close> is the microsecond at which day
  \<open>n\<close> starts.
\<close>

definition mock_env :: "(exn + whois_entry) \<Rightarrow> (exn + response) \<Rightarrow> int \<Rightarrow> env" where
  "mock_env wr hr now = \<lparr>whois_whois = (\<lambda>d. wr), requests_get = (\<lambda>u. hr), datetime_now = now\<rparr>"

definition day :: "int \<Rightarrow> int" where
  "day n = n * usec_per_day"

definition example_args :: args where
  "example_args = \<lparr>domain = ''example.com'', verbose = False\<rparr>"

definition example_snapshot :: pyval where
  "example_snapshot =
     PyDict [(''archived_snapshots'',
       PyDict [(''closest'',
         PyDict [(''url'', PyStr ''http://web.archive.org/web/20010101000000/example.com'')])])]"

section \<open>Results of the two queries\<close>

lemma get_domain_age_except_None: "get_domain_age_except e = Inr PyNone"
  by (simp add: get_domain_age_except_def)

lemma check_wayback_except_None: "check_wayback_except e = Inr PyNone"
  by (simp add: check_wayback_except_def)

text \<open>
  Both functions send their query first and give back what the \<open>try\<close> block computed, with
  every exception turned into \<open>None\<close>.
\<close>

lemma get_domain_age_fst:
  "fst (get_domain_age ev d w) =
     (case whois_whois ev d of
        Inl e \<Rightarrow> Inr PyNone
      | Inr info \<Rightarrow>
          (case get_domain_age_body (datetime_now ev) info of
             Inl e \<Rightarrow> Inr PyNone
           | Inr v \<Rightarrow> Inr v))"
  by (simp add: get_domain_age_def Let_def get_domain_age_except_None split: sum.splits)

lemma get_domain_age_snd: "snd (get_domain_age ev d w) = send (WhoisQuery d) w"
  by (simp add: get_domain_age_def Let_def)

lemma check_wayback_machine_fst:
  "fst (check_wayback_machine ev d w) =
     (case requests_get ev (wayback_url d) of
        Inl e \<Rightarrow> Inr PyNone
      | Inr resp \<Rightarrow>
          (case check_wayback_body resp of
             Inl e \<Rightarrow> Inr PyNone
           | Inr v \<Rightarrow> Inr v))"
  by (simp add: check_wayback_machine_def Let_def check_wayback_except_None split: sum.splits)

lemma check_wayback_machine_snd:
  "snd (check_wayback_machine ev d w) = send (HttpGet (wayback_url d)) w"
  by (simp add: check_wayback_machine_def Let_def)

lemma get_domain_age_returns: "\<exists>v. fst (get_domain_age ev d w) = Inr v"
  by (simp add: get_domain_age_fst split: sum.splits)

lemma check_wayback_machine_returns: "\<exists>v. fst (check_wayback_machine ev d w) = Inr v"
  by (simp add: check_wayback_machine_fst split: sum.splits)

text \<open>
  A run of \<open>main\<close> on a valid domain, given what the two queries return: both queries are
  sent, in this order, one line is printed for each, and the status is 0.
\<close>

lemma main_valid:
  assumes "is_valid_domain (PyStr (domain a))"
    and "fst (get_domain_age ev (domain a) w) = Inr age"
    and "fst (check_wayback_machine ev (domain a) w') = Inr u"
  shows "main ev a w =
     (0, w\<lparr>calls := calls w @ [WhoisQuery (domain a), HttpGet (wayback_url (domain a))],
           stdout := stdout w @ [age_line (domain a) age, wayback_line (domain a) u]\<rparr>)"
proof -
  have u: "fst (check_wayback_machine ev (domain a) w'') = Inr u" for w''
    using assms(3) by (simp add: check_wayback_machine_fst)
  obtain w1 where g: "get_domain_age ev (domain a) w = (Inr age, w1)"
    and w1: "w1 = send (WhoisQuery (domain a)) w"
    using assms(2) get_domain_age_snd [of ev "domain a" w]
    by (cases "get_domain_age ev (domain a) w") simp
  define w2 where "w2 = print (age_line (domain a) age) w1"
  obtain w3 where c: "check_wayback_machine ev (domain a) w2 = (Inr u, w3)"
    and w3: "w3 = send (HttpGet (wayback_url (domain a))) w2"
    using u [of w2] check_wayback_machine_snd [of ev "domain a" w2]
    by (cases "check_wayback_machine ev (domain a) w2") simp
  have "main ev a w = (0, print (wayback_line (domain a) u) w3)"
    using assms(1) g c by (simp add: main_def Let_def w2_def)
  then show ?thesis
    by (simp add: w3 w2_def w1 send_def print_def)
qed

section \<open>The decoded Wayback answer\<close>

lemma check_wayback_body_ok:
  assumes "\<not> (400 \<le> status_code r \<and> status_code r < 600)" and "json r = Inr data"
  shows "check_wayback_body r = check_wayback_data data"
  using assms by (auto simp: check_wayback_body_def raise_for_status_def)

lemma check_wayback_data_dict:
  "check_wayback_data (PyDict kvs) =
     (case map_of kvs ''archived_snapshots'' of
        None \<Rightarrow> Inr PyNone
      | Some snaps \<Rightarrow>
          if \<not> truthy snaps then Inr PyNone
          else (case py_contains snaps ''closest'' of
                  Inl e \<Rightarrow> Inl e
                | Inr b \<Rightarrow>
                    if \<not> b then Inr PyNone
                    else (case py_getitem snaps ''closest'' of
                            Inl e \<Rightarrow> Inl e
                          | Inr c \<Rightarrow> py_getitem c ''url'')))"
  by (cases kvs)
     (auto simp: check_wayback_data_def has_snapshots_def closest_url_def
           split: option.splits sum.splits bool.splits)

lemma check_wayback_data_not_dict:
  assumes "\<forall>kvs. data \<noteq> PyDict kvs"
  shows "check_wayback_data data = Inr PyNone \<or> (\<exists>e. check_wayback_data data = Inl e)"
  using assms
  by (cases data)
     (auto simp: check_wayback_data_def has_snapshots_def closest_url_def
           split: option.splits sum.splits bool.splits)

lemma check_wayback_data_value:
  assumes "check_wayback_data data = Inr v" and "v \<noteq> PyNone"
  shows "\<exists>kvs snaps c. data = PyDict kvs \<and>
           map_of kvs ''archived_snapshots'' = Some (PyDict snaps) \<and> snaps \<noteq> [] \<and>
           map_of snaps ''closest'' = Some (PyDict c) \<and> map_of c ''url'' = Some v"
proof (cases data)
  case (PyDict kvs)
  with assms obtain snaps where s: "map_of kvs ''archived_snapshots'' = Some snaps"
    and t: "truthy snaps"
    by (auto simp: check_wayback_data_dict split: option.splits if_splits)
  from assms PyDict s t obtain c where b: "py_contains snaps ''closest'' = Inr True"
    and g: "py_getitem snaps ''closest'' = Inr c" and u: "py_getitem c ''url'' = Inr v"
    by (auto simp: check_wayback_data_dict split: sum.splits if_splits)
  from g obtain ss where ss: "snaps = PyDict ss" and c: "map_of ss ''closest'' = Some c"
    by (cases snaps) (auto split: option.splits)
  from u obtain cs where cs: "c = PyDict cs" and v: "map_of cs ''url'' = Some v"
    by (cases c) (auto split: option.splits)
  from t ss have "ss \<noteq> []" by simp
  with PyDict s ss c cs v show ?thesis by simp
qed (use assms check_wayback_data_not_dict [of data] in auto)

section \<open>Input validation\<close>

text \<open>
  C1. A value fails validation exactly when it is not a string, is the empty string or
  holds a space. When the domain given to \<open>main\<close> fails validation, \<open>main\<close> exits with
  status 1 and leaves the world as it found it: no WHOIS query, no HTTP request, no line
  printed. Neither query function was called, since a call of either adds its query to
  the world.
\<close>

theorem invalid_domain_exits_before_queries:
  "(\<not> is_valid_domain v \<longleftrightarrow>
      (case v of PyStr s \<Rightarrow> s = [] \<or> CHR '' '' \<in> set s | _ \<Rightarrow> True)) \<and>
   (\<not> is_valid_domain (PyStr (domain a)) \<longrightarrow> main ev a w = (1, w)) \<and>
   calls (snd (get_domain_age ev d w)) = calls w @ [WhoisQuery d] \<and>
   calls (snd (check_wayback_machine ev d w)) = calls w @ [HttpGet (wayback_url d)]"
  by (cases v)
     (simp_all add: main_def Let_def get_domain_age_snd check_wayback_machine_snd send_def)

theorem invalid_domain_exits_before_queries_witness:
  "\<not> is_valid_domain (PyInt 7) \<and> \<not> is_valid_domain (PyStr []) \<and>
   \<not> is_valid_domain (PyStr ''exa mple.com'') \<and>
   main (mock_env (Inr \<lparr>creation_date = PyDatetime (Naive (day 100))\<rparr>)
           (Inr \<lparr>status_code = 200, json = Inr example_snapshot\<rparr>) (day 3750))
        \<lparr>domain = ''exa mple.com'', verbose = False\<rparr> world0 =
     (1, \<lparr>calls = [], stdout = []\<rparr>)"
proof -
  have h: "\<not> is_valid_domain (PyStr (domain \<lparr>domain = ''exa mple.com'', verbose = False\<rparr>))"
    by simp
  have e: "\<not> is_valid_domain (PyStr [])"
    by simp
  show ?thesis
    using h e invalid_domain_exits_before_queries
      [of "PyInt 7" "\<lparr>domain = ''exa mple.com'', verbose = False\<rparr>"
          "mock_env (Inr \<lparr>creation_date = PyDatetime (Naive (day 100))\<rparr>)
             (Inr \<lparr>status_code = 200, json = Inr example_snapshot\<rparr>) (day 3750)"
          world0 "''example.com''"]
    by (simp add: world0_def)
qed

section \<open>The age of a domain\<close>

text \<open>
  C2. When the lookup returns an entry whose \<open>creation_date\<close> is the single naive
  datetime \<open>T\<close> and the clock stands at \<open>now\<close>, \<open>get_domain_age\<close> returns the integer
  \<open>(now - T) div usec_per_day\<close>, which is the floor of the difference counted in days.
\<close>

theorem age_is_floor_of_days:
  assumes "whois_whois ev d = Inr info"
    and "creation_date info = PyDatetime (Naive T)"
  shows "fst (get_domain_age ev d w) = Inr (PyInt ((datetime_now ev - T) div usec_per_day)) \<and>
         (datetime_now ev - T) div usec_per_day =
           \<lfloor>real_of_int (datetime_now ev - T) / real_of_int usec_per_day\<rfloor>"
  using assms
  by (simp add: get_domain_age_fst get_domain_age_body_def floor_divide_of_int_eq
        del: of_int_diff)

theorem age_is_floor_of_days_witness:
  "fst (get_domain_age
          (mock_env (Inr \<lparr>creation_date = PyDatetime (Naive (day 100))\<rparr>) (Inl RequestException)
             (day 3750 + 5))
          ''example.com'' world0) = Inr (PyInt 3650)"
proof -
  let ?info = "\<lparr>creation_date = PyDatetime (Naive (day 100))\<rparr>"
  let ?ev = "mock_env (Inr ?info) (Inl RequestException) (day 3750 + 5)"
  have h1: "whois_whois ?ev ''example.com'' = Inr ?info"
    by (simp add: mock_env_def)
  have h2: "creation_date ?info = PyDatetime (Naive (day 100))"
    by simp
  have n: "(datetime_now ?ev - day 100) div usec_per_day = 3650"
    by (simp add: mock_env_def day_def usec_per_day_def)
  show ?thesis
    using age_is_floor_of_days [OF h1 h2, of world0] by (simp only: n)
qed

text \<open>
  C3. When the lookup returns an entry whose \<open>creation_date\<close> is a list with first
  element \<open>x\<close>: a naive datetime \<open>x\<close> gives the age counted from \<open>x\<close>; \<open>x = None\<close> gives
  \<open>None\<close>; and the result is the same whatever follows \<open>x\<close> in the list.
\<close>

theorem first_creation_date_is_canonical:
  assumes "whois_whois ev d = Inr info"
    and "creation_date info = PyList (x # rest)"
  shows "(\<forall>T. x = PyDatetime (Naive T) \<longrightarrow>
            fst (get_domain_age ev d w) = Inr (PyInt ((datetime_now ev - T) div usec_per_day))) \<and>
         (x = PyNone \<longrightarrow> fst (get_domain_age ev d w) = Inr PyNone) \<and>
         (\<forall>ev' info' rest' w'.
            whois_whois ev' d = Inr info' \<and> creation_date info' = PyList (x # rest') \<and>
            datetime_now ev' = datetime_now ev \<longrightarrow>
            fst (get_domain_age ev' d w') = fst (get_domain_age ev d w))"
  using assms by (simp add: get_domain_age_fst get_domain_age_body_def)

theorem first_creation_date_is_canonical_witness:
  "fst (get_domain_age
          (mock_env (Inr \<lparr>creation_date =
               PyList [PyDatetime (Naive (day 100)), PyDatetime (Naive (day 200))]\<rparr>)
             (Inl RequestException) (day 3750))
          ''example.com'' world0) = Inr (PyInt 3650)"
proof -
  let ?info = "\<lparr>creation_date =
     PyList [PyDatetime (Naive (day 100)), PyDatetime (Naive (day 200))]\<rparr>"
  let ?ev = "mock_env (Inr ?info) (Inl RequestException) (day 3750)"
  have h1: "whois_whois ?ev ''example.com'' = Inr ?info"
    by (simp add: mock_env_def)
  have h2: "creation_date ?info =
      PyList (PyDatetime (Naive (day 100)) # [PyDatetime (Naive (day 200))])"
    by simp
  have n: "(datetime_now ?ev - day 100) div usec_per_day = 3650"
    by (simp add: mock_env_def day_def usec_per_day_def)
  show ?thesis
    using first_creation_date_is_canonical [OF h1 h2, of world0] by (simp only: n)
qed

text \<open>
  C8. When the lookup returns an entry whose \<open>creation_date\<close> is a timezone-aware
  datetime, subtracting it from the naive \<open>datetime.now()\<close> raises \<open>TypeError\<close> inside the
  \<open>try\<close>, and \<open>get_domain_age\<close> returns \<open>None\<close>.
\<close>

theorem aware_creation_date_gives_None:
  assumes "whois_whois ev d = Inr info"
    and "creation_date info = PyDatetime (Aware t off)"
  shows "get_domain_age_body (datetime_now ev) info = Inl TypeError \<and>
         fst (get_domain_age ev d w) = Inr PyNone"
  using assms by (simp add: get_domain_age_fst get_domain_age_body_def)

theorem aware_creation_date_gives_None_witness:
  "fst (get_domain_age
          (mock_env (Inr \<lparr>creation_date = PyDatetime (Aware (day 100) 0)\<rparr>)
             (Inl RequestException) (day 3750))
          ''example.com'' world0) = Inr PyNone"
proof -
  let ?info = "\<lparr>creation_date = PyDatetime (Aware (day 100) 0)\<rparr>"
  let ?ev = "mock_env (Inr ?info) (Inl RequestException) (day 3750)"
  have h1: "whois_whois ?ev ''example.com'' = Inr ?info"
    by (simp add: mock_env_def)
  have h2: "creation_date ?info = PyDatetime (Aware (day 100) 0)"
    by simp
  show ?thesis
    using aware_creation_date_gives_None [OF h1 h2, of world0] by simp
qed

text \<open>
  C10. When the lookup returns an entry whose \<open>creation_date\<close> is a single naive datetime
  later than \<open>now\<close>, \<open>get_domain_age\<close> returns the negative integer
  \<open>(now - T) div usec_per_day\<close>, and \<open>main\<close>, on a valid domain, prints it in the line that
  reports the age in days.
\<close>

theorem future_creation_date_gives_negative_age:
  assumes "is_valid_domain (PyStr (domain a))"
    and "whois_whois ev (domain a) = Inr info"
    and "creation_date info = PyDatetime (Naive T)"
    and "datetime_now ev < T"
  shows "\<exists>n. n < 0 \<and> n = (datetime_now ev - T) div usec_per_day \<and>
           fst (get_domain_age ev (domain a) w) = Inr (PyInt n) \<and>
           stdout (snd (main ev a w)) ! length (stdout w) =
             [Lit ''Domain '', Fmt (PyStr (domain a)), Lit '' is '', Fmt (PyInt n),
              Lit '' days old.'']"
proof -
  define n where "n = (datetime_now ev - T) div usec_per_day"
  have neg: "n < 0"
    unfolding n_def using assms(4) by (intro div_neg_pos_less0) (simp_all add: usec_per_day_def)
  have age: "fst (get_domain_age ev (domain a) w) = Inr (PyInt n)"
    using assms(2,3) by (simp add: get_domain_age_fst get_domain_age_body_def n_def)
  obtain u where u: "fst (check_wayback_machine ev (domain a) w) = Inr u"
    using check_wayback_machine_returns by blast
  have "stdout (snd (main ev a w)) =
      stdout w @ [age_line (domain a) (PyInt n), wayback_line (domain a) u]"
    using main_valid [OF assms(1) age u] by simp
  then have "stdout (snd (main ev a w)) ! length (stdout w) = age_line (domain a) (PyInt n)"
    by simp
  then show ?thesis
    using neg age by (simp add: age_line_def n_def)
qed

theorem future_creation_date_gives_negative_age_witness:
  "fst (get_domain_age
          (mock_env (Inr \<lparr>creation_date = PyDatetime (Naive (day 3750 + 1))\<rparr>)
             (Inl RequestException) (day 3750))
          ''example.com'' world0) = Inr (PyInt (- 1)) \<and>
   stdout (snd (main
          (mock_env (Inr \<lparr>creation_date = PyDatetime (Naive (day 3750 + 1))\<rparr>)
             (Inl RequestException) (day 3750))
          example_args world0)) ! 0 =
     [Lit ''Domain '', Fmt (PyStr ''example.com''), Lit '' is '', Fmt (PyInt (- 1)),
      Lit '' days old.'']"
proof -
  let ?info = "\<lparr>creation_date = PyDatetime (Naive (day 3750 + 1))\<rparr>"
  let ?ev = "mock_env (Inr ?info) (Inl RequestException) (day 3750)"
  have h1: "is_valid_domain (PyStr (domain example_args))"
    by (simp add: example_args_def)
  have h2: "whois_whois ?ev (domain example_args) = Inr ?info"
    by (simp add: mock_env_def)
  have h3: "creation_date ?info = PyDatetime (Naive (day 3750 + 1))"
    by simp
  have h4: "datetime_now ?ev < day 3750 + 1"
    by (simp add: mock_env_def)
  have n: "(datetime_now ?ev - (day 3750 + 1)) div usec_per_day = - 1"
    by (simp add: mock_env_def day_def usec_per_day_def)
  show ?thesis
    using future_creation_date_gives_negative_age [OF h1 h2 h3 h4, of world0]
    by (simp add: n example_args_def world0_def)
qed

text \<open>
  C5. \<open>get_domain_age\<close> returns \<open>None\<close> when the lookup raises (\<open>PywhoisError\<close> or
  anything else), when the entry has no creation date, and when the \<open>try\<close> block raises
  after the lookup; it never lets an exception out.
\<close>

theorem whois_failures_give_None:
  "(whois_whois ev d = Inl e \<longrightarrow> fst (get_domain_age ev d w) = Inr PyNone) \<and>
   (whois_whois ev d = Inr info \<and> creation_date info = PyNone \<longrightarrow>
      fst (get_domain_age ev d w) = Inr PyNone) \<and>
   (whois_whois ev d = Inr info \<and> get_domain_age_body (datetime_now ev) info = Inl e \<longrightarrow>
      fst (get_domain_age ev d w) = Inr PyNone) \<and>
   (\<forall>e'. fst (get_domain_age ev d w) \<noteq> Inl e')"
  by (auto simp: get_domain_age_fst get_domain_age_body_def split: sum.splits)

theorem whois_failures_give_None_witness:
  "fst (get_domain_age (mock_env (Inl PywhoisError) (Inl RequestException) 0)
          ''example.com'' world0) = Inr PyNone \<and>
   fst (get_domain_age (mock_env (Inl Exception) (Inl RequestException) 0)
          ''example.com'' world0) = Inr PyNone \<and>
   fst (get_domain_age (mock_env (Inr \<lparr>creation_date = PyNone\<rparr>) (Inl RequestException) 0)
          ''example.com'' world0) = Inr PyNone \<and>
   get_domain_age_body 0 \<lparr>creation_date = PyStr ''before Aug-1996''\<rparr> = Inl TypeError \<and>
   fst (get_domain_age
          (mock_env (Inr \<lparr>creation_date = PyStr ''before Aug-1996''\<rparr>) (Inl RequestException) 0)
          ''example.com'' world0) = Inr PyNone"
proof -
  let ?n = "\<lparr>creation_date = PyNone\<rparr>"
  let ?s = "\<lparr>creation_date = PyStr ''before Aug-1996''\<rparr>"
  have b: "get_domain_age_body 0 ?s = Inl TypeError"
    by (simp add: get_domain_age_body_def)
  have 1: "fst (get_domain_age (mock_env (Inl PywhoisError) (Inl RequestException) 0)
          ''example.com'' world0) = Inr PyNone"
    using whois_failures_give_None
      [of "mock_env (Inl PywhoisError) (Inl RequestException) 0" "''example.com''"
          PywhoisError world0 ?n]
    by (simp add: mock_env_def)
  have 2: "fst (get_domain_age (mock_env (Inl Exception) (Inl RequestException) 0)
          ''example.com'' world0) = Inr PyNone"
    using whois_failures_give_None
      [of "mock_env (Inl Exception) (Inl RequestException) 0" "''example.com''"
          Exception world0 ?n]
    by (simp add: mock_env_def)
  have 3: "fst (get_domain_age (mock_env (Inr ?n) (Inl RequestException) 0)
          ''example.com'' world0) = Inr PyNone"
    using whois_failures_give_None
      [of "mock_env (Inr ?n) (Inl RequestException) 0" "''example.com''" TypeError world0 ?n]
    by (simp add: mock_env_def)
  have 4: "fst (get_domain_age (mock_env (Inr ?s) (Inl RequestException) 0)
          ''example.com'' world0) = Inr PyNone"
    using b whois_failures_give_None
      [of "mock_env (Inr ?s) (Inl RequestException) 0" "''example.com''" TypeError world0 ?s]
    by (simp add: mock_env_def)
  show ?thesis
    using b 1 2 3 4 by simp
qed

section \<open>The Wayback Machine\<close>

text \<open>
  C4. For a response with a good status and a decoded body \<open>data\<close>: when \<open>data\<close> holds a
  non-empty \<open>archived_snapshots\<close> object whose \<open>closest\<close> entry is an object with a \<open>url\<close>,
  \<open>check_wayback_machine\<close> returns the value at that \<open>url\<close>; when \<open>archived_snapshots\<close>
  is absent, is the empty object, or has no \<open>closest\<close> key, it returns \<open>None\<close>; and a
  result other than \<open>None\<close> is only ever returned for a body of the first shape, and is the
  value at its \<open>url\<close>.
\<close>

theorem closest_url_returned_iff:
  assumes "requests_get ev (wayback_url d) = Inr r"
    and "\<not> (400 \<le> status_code r \<and> status_code r < 600)"
    and "json r = Inr data"
  shows "(\<forall>kvs snaps c u.
            data = PyDict kvs \<and> map_of kvs ''archived_snapshots'' = Some (PyDict snaps) \<and>
            snaps \<noteq> [] \<and> map_of snaps ''closest'' = Some (PyDict c) \<and>
            map_of c ''url'' = Some u \<longrightarrow>
            fst (check_wayback_machine ev d w) = Inr u) \<and>
         (\<forall>kvs. data = PyDict kvs \<and> map_of kvs ''archived_snapshots'' = None \<longrightarrow>
            fst (check_wayback_machine ev d w) = Inr PyNone) \<and>
         (\<forall>kvs. data = PyDict kvs \<and> map_of kvs ''archived_snapshots'' = Some (PyDict []) \<longrightarrow>
            fst (check_wayback_machine ev d w) = Inr PyNone) \<and>
         (\<forall>kvs snaps.
            data = PyDict kvs \<and> map_of kvs ''archived_snapshots'' = Some (PyDict snaps) \<and>
            map_of snaps ''closest'' = None \<longrightarrow>
            fst (check_wayback_machine ev d w) = Inr PyNone) \<and>
         (\<forall>v. fst (check_wayback_machine ev d w) = Inr v \<and> v \<noteq> PyNone \<longrightarrow>
            (\<exists>kvs snaps c.
               data = PyDict kvs \<and> map_of kvs ''archived_snapshots'' = Some (PyDict snaps) \<and>
               snaps \<noteq> [] \<and> map_of snaps ''closest'' = Some (PyDict c) \<and>
               map_of c ''url'' = Some v))"
proof -
  have r: "fst (check_wayback_machine ev d w) =
      (case check_wayback_data data of Inl e \<Rightarrow> Inr PyNone | Inr v \<Rightarrow> Inr v)"
    using assms(1) check_wayback_body_ok [OF assms(2,3)]
    by (simp add: check_wayback_machine_fst)
  have "check_wayback_data data = Inr v"
    if "fst (check_wayback_machine ev d w) = Inr v" "v \<noteq> PyNone" for v
    using that by (simp add: r split: sum.splits)
  then have last: "\<exists>kvs snaps c.
      data = PyDict kvs \<and> map_of kvs ''archived_snapshots'' = Some (PyDict snaps) \<and>
      snaps \<noteq> [] \<and> map_of snaps ''closest'' = Some (PyDict c) \<and> map_of c ''url'' = Some v"
    if "fst (check_wayback_machine ev d w) = Inr v" "v \<noteq> PyNone" for v
    using that check_wayback_data_value by blast
  show ?thesis
    using last by (auto simp: r check_wayback_data_dict)
qed

theorem closest_url_returned_iff_witness:
  "fst (check_wayback_machine
          (mock_env (Inl PywhoisError) (Inr \<lparr>status_code = 200, json = Inr example_snapshot\<rparr>) 0)
          ''example.com'' world0) =
     Inr (PyStr ''http://web.archive.org/web/20010101000000/example.com'') \<and>
   fst (check_wayback_machine
          (mock_env (Inl PywhoisError) (Inr \<lparr>status_code = 200, json = Inr (PyDict [])\<rparr>) 0)
          ''example.com'' world0) = Inr PyNone"
proof -
  let ?r = "\<lparr>status_code = 200, json = Inr example_snapshot\<rparr>"
  let ?ev = "mock_env (Inl PywhoisError) (Inr ?r) 0"
  let ?r' = "\<lparr>status_code = 200, json = Inr (PyDict [])\<rparr>"
  let ?ev' = "mock_env (Inl PywhoisError) (Inr ?r') 0"
  have h1: "requests_get ?ev (wayback_url ''example.com'') = Inr ?r"
    by (simp add: mock_env_def)
  have h2: "\<not> (400 \<le> status_code ?r \<and> status_code ?r < 600)"
    by simp
  have h3: "json ?r = Inr example_snapshot"
    by simp
  have k1: "requests_get ?ev' (wayback_url ''example.com'') = Inr ?r'"
    by (simp add: mock_env_def)
  have k2: "\<not> (400 \<le> status_code ?r' \<and> status_code ?r' < 600)"
    by simp
  have k3: "json ?r' = Inr (PyDict [])"
    by simp
  have a: "fst (check_wayback_machine ?ev ''example.com'' world0) =
      Inr (PyStr ''http://web.archive.org/web/20010101000000/example.com'')"
    using closest_url_returned_iff [OF h1 h2 h3, of world0]
    by (simp add: example_snapshot_def)
  have b: "fst (check_wayback_machine ?ev' ''example.com'' world0) = Inr PyNone"
    using closest_url_returned_iff [OF k1 k2 k3, of world0] by simp
  show ?thesis
    using a b by simp
qed

text \<open>
  C9. For a response with a good status whose \<open>archived_snapshots\<close> object has a
  \<open>closest\<close> entry with no \<open>url\<close> key (an object without that key, or a value that is not
  an object), the lookup of \<open>url\<close> raises an exception that is not a \<open>RequestException\<close>,
  and \<open>check_wayback_machine\<close> returns \<open>None\<close>.
\<close>

theorem closest_without_url_gives_None:
  assumes "requests_get ev (wayback_url d) = Inr r"
    and "\<not> (400 \<le> status_code r \<and> status_code r < 600)"
    and "json r = Inr (PyDict kvs)"
    and "map_of kvs ''archived_snapshots'' = Some (PyDict snaps)"
    and "map_of snaps ''closest'' = Some c"
    and "\<And>cs. c = PyDict cs \<Longrightarrow> map_of cs ''url'' = None"
  shows "(\<exists>e. check_wayback_body r = Inl e \<and> \<not> isinstance_RequestException e) \<and>
         fst (check_wayback_machine ev d w) = Inr PyNone"
proof -
  have "snaps \<noteq> []"
    using assms(5) by auto
  then have b: "check_wayback_body r = py_getitem c ''url''"
    using assms(4,5) check_wayback_body_ok [OF assms(2,3)]
    by (simp add: check_wayback_data_dict)
  have g: "py_getitem c ''url'' = Inl KeyError \<or> py_getitem c ''url'' = Inl TypeError"
    using assms(6) by (cases c) simp_all
  then show ?thesis
    using assms(1) b by (auto simp: check_wayback_machine_fst)
qed

theorem closest_without_url_gives_None_witness:
  "fst (check_wayback_machine
          (mock_env (Inl PywhoisError)
             (Inr \<lparr>status_code = 200,
                   json = Inr (PyDict [(''archived_snapshots'',
                            PyDict [(''closest'', PyDict [(''status'', PyStr ''200'')])])])\<rparr>) 0)
          ''example.com'' world0) = Inr PyNone"
proof -
  let ?c = "PyDict [(''status'', PyStr ''200'')]"
  let ?snaps = "[(''closest'', ?c)]"
  let ?kvs = "[(''archived_snapshots'', PyDict ?snaps)]"
  let ?r = "\<lparr>status_code = 200, json = Inr (PyDict ?kvs)\<rparr>"
  let ?ev = "mock_env (Inl PywhoisError) (Inr ?r) 0"
  have h1: "requests_get ?ev (wayback_url ''example.com'') = Inr ?r"
    by (simp add: mock_env_def)
  have h2: "\<not> (400 \<le> status_code ?r \<and> status_code ?r < 600)"
    by simp
  have h3: "json ?r = Inr (PyDict ?kvs)"
    by simp
  have h4: "map_of ?kvs ''archived_snapshots'' = Some (PyDict ?snaps)"
    by simp
  have h5: "map_of ?snaps ''closest'' = Some ?c"
    by simp
  have h6: "map_of cs ''url'' = None" if "?c = PyDict cs" for cs
    using that by auto
  show ?thesis
    using closest_without_url_gives_None [OF h1 h2 h3 h4 h5 h6, of world0] by simp
qed

text \<open>
  C6. \<open>check_wayback_machine\<close> returns \<open>None\<close> when the request raises, when the status
  is 4xx or 5xx, and when the body cannot be decoded; it never lets an exception out.
\<close>

theorem wayback_failures_give_None:
  "(requests_get ev (wayback_url d) = Inl e \<longrightarrow>
      fst (check_wayback_machine ev d w) = Inr PyNone) \<and>
   (requests_get ev (wayback_url d) = Inr r \<and> 400 \<le> status_code r \<and> status_code r < 600 \<longrightarrow>
      fst (check_wayback_machine ev d w) = Inr PyNone) \<and>
   (requests_get ev (wayback_url d) = Inr r \<and> json r = Inl e \<longrightarrow>
      fst (check_wayback_machine ev d w) = Inr PyNone) \<and>
   (\<forall>e'. fst (check_wayback_machine ev d w) \<noteq> Inl e')"
  by (auto simp: check_wayback_machine_fst check_wayback_body_def raise_for_status_def
           split: sum.splits)

theorem wayback_failures_give_None_witness:
  "fst (check_wayback_machine (mock_env (Inl PywhoisError) (Inl RequestException) 0)
          ''example.com'' world0) = Inr PyNone \<and>
   fst (check_wayback_machine
          (mock_env (Inl PywhoisError) (Inr \<lparr>status_code = 500, json = Inr example_snapshot\<rparr>) 0)
          ''example.com'' world0) = Inr PyNone \<and>
   fst (check_wayback_machine
          (mock_env (Inl PywhoisError) (Inr \<lparr>status_code = 404, json = Inr example_snapshot\<rparr>) 0)
          ''example.com'' world0) = Inr PyNone \<and>
   fst (check_wayback_machine
          (mock_env (Inl PywhoisError) (Inr \<lparr>status_code = 200, json = Inl RequestException\<rparr>) 0)
          ''example.com'' world0) = Inr PyNone"
proof -
  let ?r5 = "\<lparr>status_code = 500, json = Inr example_snapshot\<rparr>"
  let ?r4 = "\<lparr>status_code = 404, json = Inr example_snapshot\<rparr>"
  let ?rj = "\<lparr>status_code = 200, json = Inl RequestException\<rparr>"
  have 1: "fst (check_wayback_machine (mock_env (Inl PywhoisError) (Inl RequestException) 0)
          ''example.com'' world0) = Inr PyNone"
    using wayback_failures_give_None
      [of "mock_env (Inl PywhoisError) (Inl RequestException) 0" "''example.com''"
          RequestException world0 ?r5]
    by (simp add: mock_env_def)
  have 2: "fst (check_wayback_machine (mock_env (Inl PywhoisError) (Inr ?r5) 0)
          ''example.com'' world0) = Inr PyNone"
    using wayback_failures_give_None
      [of "mock_env (Inl PywhoisError) (Inr ?r5) 0" "''example.com''"
          RequestException world0 ?r5]
    by (simp add: mock_env_def)
  have 3: "fst (check_wayback_machine (mock_env (Inl PywhoisError) (Inr ?r4) 0)
          ''example.com'' world0) = Inr PyNone"
    using wayback_failures_give_None
      [of "mock_env (Inl PywhoisError) (Inr ?r4) 0" "''example.com''"
          RequestException world0 ?r4]
    by (simp add: mock_env_def)
  have 4: "fst (check_wayback_machine (mock_env (Inl PywhoisError) (Inr ?rj) 0)
          ''example.com'' world0) = Inr PyNone"
    using wayback_failures_give_None
      [of "mock_env (Inl PywhoisError) (Inr ?rj) 0" "''example.com''"
          RequestException world0 ?rj]
    by (simp add: mock_env_def)
  show ?thesis
    using 1 2 3 4 by simp
qed

section \<open>The whole run\<close>

text \<open>
  C7. On a valid domain \<open>main\<close> exits with status 0 after sending the WHOIS query and then
  the HTTP request and printing one line for each, whatever the two collaborators do. The
  age reported depends on the lookup and the clock only, and the URL reported on the HTTP
  answer only.
\<close>

theorem valid_domain_runs_both_queries:
  assumes "is_valid_domain (PyStr (domain a))"
  shows "\<exists>age u.
           fst (get_domain_age ev (domain a) w) = Inr age \<and>
           (\<forall>w'. fst (check_wayback_machine ev (domain a) w') = Inr u) \<and>
           main ev a w =
             (0, w\<lparr>calls := calls w @ [WhoisQuery (domain a), HttpGet (wayback_url (domain a))],
                   stdout := stdout w @ [age_line (domain a) age, wayback_line (domain a) u]\<rparr>) \<and>
           (\<forall>ev' w'. whois_whois ev' = whois_whois ev \<and> datetime_now ev' = datetime_now ev \<longrightarrow>
              fst (get_domain_age ev' (domain a) w') = Inr age) \<and>
           (\<forall>ev' w'. requests_get ev' = requests_get ev \<longrightarrow>
              fst (check_wayback_machine ev' (domain a) w') = Inr u)"
proof -
  obtain age where age: "fst (get_domain_age ev (domain a) w) = Inr age"
    using get_domain_age_returns by blast
  obtain u where u: "fst (check_wayback_machine ev (domain a) w) = Inr u"
    using check_wayback_machine_returns by blast
  have m: "main ev a w =
      (0, w\<lparr>calls := calls w @ [WhoisQuery (domain a), HttpGet (wayback_url (domain a))],
            stdout := stdout w @ [age_line (domain a) age, wayback_line (domain a) u]\<rparr>)"
    using assms age u by (rule main_valid)
  have i1: "fst (get_domain_age ev' (domain a) w') = Inr age"
    if "whois_whois ev' = whois_whois ev" "datetime_now ev' = datetime_now ev" for ev' w'
    using age that by (simp add: get_domain_age_fst cong: sum.case_cong)
  have i2: "fst (check_wayback_machine ev' (domain a) w') = Inr u"
    if "requests_get ev' = requests_get ev" for ev' w'
    using u that by (simp add: check_wayback_machine_fst cong: sum.case_cong)
  show ?thesis
    using age m i1 i2 by blast
qed

theorem valid_domain_runs_both_queries_witness:
  "main (mock_env (Inl PywhoisError) (Inr \<lparr>status_code = 200, json = Inr example_snapshot\<rparr>) 0)
        example_args world0 =
     (0, \<lparr>calls = [WhoisQuery ''example.com'',
                   HttpGet ''http://archive.org/wayback/available?url=example.com''],
          stdout = [[Lit ''Could not determine the age of domain '', Fmt (PyStr ''example.com''),
                     Lit ''.''],
                    [Lit ''Oldest Wayback Machine URL for '', Fmt (PyStr ''example.com''),
                     Lit '': '',
                     Fmt (PyStr ''http://web.archive.org/web/20010101000000/example.com'')]]\<rparr>)"
proof -
  let ?ev = "mock_env (Inl PywhoisError)
               (Inr \<lparr>status_code = 200, json = Inr example_snapshot\<rparr>) 0"
  have h: "is_valid_domain (PyStr (domain example_args))"
    by (simp add: example_args_def)
  from valid_domain_runs_both_queries [OF h, of ?ev world0]
  obtain age u where a: "fst (get_domain_age ?ev (domain example_args) world0) = Inr age"
    and u: "\<forall>w'. fst (check_wayback_machine ?ev (domain example_args) w') = Inr u"
    and m: "main ?ev example_args world0 =
      (0, world0\<lparr>calls := calls world0 @
              [WhoisQuery (domain example_args), HttpGet (wayback_url (domain example_args))],
            stdout := stdout world0 @
              [age_line (domain example_args) age, wayback_line (domain example_args) u]\<rparr>)"
    by blast
  have age: "age = PyNone"
    using a by (simp add: get_domain_age_fst mock_env_def)
  have "check_wayback_body \<lparr>status_code = 200, json = Inr example_snapshot\<rparr> =
      Inr (PyStr ''http://web.archive.org/web/20010101000000/example.com'')"
    by (simp add: check_wayback_body_def raise_for_status_def example_snapshot_def
          check_wayback_data_dict)
  with u have url: "u = PyStr ''http://web.archive.org/web/20010101000000/example.com''"
    by (simp add: check_wayback_machine_fst mock_env_def)
  show ?thesis
    unfolding m age url
    by (simp add: age_line_def wayback_line_def world0_def example_args_def wayback_url_def)
qed

end
